theory Spec2Isabelle
  imports Main
begin

section \<open>The script \<open>test-langfuse/main.py\<close>\<close>

text \<open>
  The script assigns four environment variables at module level, and, when it runs as the
  main program, builds one client, calls \<open>client.chat.completions.create\<close> once and prints
  the content of the first choice. The client library is not part of the repository: the
  call is a parameter of the model, a function from the request and the state of the
  outside world to the library's answer (an exception or a response object) and the next
  state of the world. What the library does on the network during one call (how many
  times it sends the request) is inside that function. The interpreter is a parameter too,
  where the run depends on it: the encoding of standard output, which it chooses from the
  inherited environment before the first line runs. The three imports are taken to succeed
  without an observable effect.

  A text is a \<open>string\<close> holding its UTF-8 form, so a character outside ASCII is several
  elements, each with the top bit set.
\<close>

subsection \<open>Data\<close>

text \<open>\<open>os.environ\<close>: a dictionary from names to string values.\<close>

type_synonym environ = "string \<rightharpoonup> string"

text \<open>
  The object built by \<open>OpenAI(api_key=..., base_url=...)\<close>: the two keyword arguments.
  \<open>os.environ.get\<close> gives \<open>None\<close> for a name that is not set, so the key is optional.
\<close>

record client =
  api_key :: "string option"
  base_url :: string

text \<open>
  One call of \<open>client.chat.completions.create(model=..., messages=[...])\<close>: the client it
  is a method of and the two keyword arguments. A message is a dictionary literal, kept as
  the list of its items in the order written.
\<close>

record request =
  via :: client
  model :: string
  messages :: "(string \<times> string) list list"

text \<open>
  The response object, as far as the script reads it: \<open>response.choices\<close> is a list,
  a choice has a \<open>message\<close>, a message has a \<open>content\<close> (a string, or \<open>None\<close>). Every
  other field of the three objects is the extension part of the record scheme.
\<close>

record chat_message =
  content :: "string option"

record 'm choice =
  message :: "'m chat_message_scheme"

record ('m, 'c) response =
  choices :: "('m, 'c) choice_scheme list"

text \<open>
  An uncaught exception: one raised inside the client call (of a type \<open>'e\<close> that the library
  decides), the \<open>IndexError\<close> of \<open>response.choices[0]\<close> on an empty list, the
  \<open>UnicodeEncodeError\<close> of a write to standard output, or the \<open>OpenAIError\<close> of a
  constructor that has no key.
\<close>

datatype 'e error = Raised 'e | IndexError | UnicodeEncodeError | OpenAIError

text \<open>
  The observable effects of the process, in the order they happen. \<open>Write b\<close> is the bytes
  \<open>b\<close> reaching standard output.
\<close>

datatype event =
  Setenv string string
  | Init_client client
  | Create request
  | Write string

text \<open>
  The state of the process: \<open>os.environ\<close>, the effects so far, and the text layer of
  \<open>sys.stdout\<close>, which turns a text into the bytes to write, or fails on a text that its
  encoding does not have.
\<close>

record proc =
  environ :: environ
  trace :: "event list"
  stdout_encode :: "string \<Rightarrow> string option"

subsection \<open>Statements\<close>

text \<open>\<open>os.environ[k] = v\<close>\<close>

definition setenv :: "string \<Rightarrow> string \<Rightarrow> proc \<Rightarrow> proc" where
  "setenv k v p = p\<lparr>environ := (environ p)(k \<mapsto> v), trace := trace p @ [Setenv k v]\<rparr>"

text \<open>\<open>os.environ.get(k)\<close>\<close>

definition getenv :: "string \<Rightarrow> proc \<Rightarrow> string option" where
  "getenv k p = environ p k"

text \<open>
  \<open>OpenAI(api_key=k, base_url=u)\<close>, as the current release of the library behaves: a key
  that is \<open>None\<close> is looked up in \<open>OPENAI_API_KEY\<close>, and the constructor raises when there
  is no key, or an empty one, before any request.
\<close>

definition OpenAI :: "string option \<Rightarrow> string \<Rightarrow> proc \<Rightarrow> ('e error + client) \<times> proc" where
  "OpenAI k u p =
     (case (case k of None \<Rightarrow> getenv ''OPENAI_API_KEY'' p | Some s \<Rightarrow> Some s) of
        None \<Rightarrow> (Inl OpenAIError, p)
      | Some key \<Rightarrow>
          if key = [] then (Inl OpenAIError, p)
          else (let c = \<lparr>api_key = Some key, base_url = u\<rparr>
                in (Inr c, p\<lparr>trace := trace p @ [Init_client c]\<rparr>)))"

text \<open>
  \<open>client.chat.completions.create(model=m, messages=ms)\<close>: the library's call \<open>ep\<close> runs
  once on the request, in the world \<open>w\<close>.
\<close>

definition create ::
  "(request \<Rightarrow> 'w \<Rightarrow> ('e + 'r) \<times> 'w) \<Rightarrow> client \<Rightarrow> string \<Rightarrow> (string \<times> string) list list \<Rightarrow>
     proc \<Rightarrow> 'w \<Rightarrow> ('e + 'r) \<times> proc \<times> 'w" where
  "create ep c m ms p w =
     (let req = \<lparr>via = c, model = m, messages = ms\<rparr>;
          (res, w') = ep req w
      in (res, p\<lparr>trace := trace p @ [Create req]\<rparr>, w'))"

text \<open>\<open>str(x)\<close> for a value that is a string or \<open>None\<close>.\<close>

fun str :: "string option \<Rightarrow> string" where
  "str None = ''None''"
| "str (Some s) = s"

text \<open>
  \<open>sys.stdout.write(s)\<close>: the text is encoded at once; a text that cannot be encoded
  raises and nothing of it is written.
\<close>

definition stdout_write :: "string \<Rightarrow> proc \<Rightarrow> ('e error + unit) \<times> proc" where
  "stdout_write s p =
     (case stdout_encode p s of
        None \<Rightarrow> (Inl UnicodeEncodeError, p)
      | Some b \<Rightarrow> (Inr (), p\<lparr>trace := trace p @ [Write b]\<rparr>))"

text \<open>\<open>print(x)\<close>: writes \<open>str(x)\<close>, then the line terminator.\<close>

definition print :: "string option \<Rightarrow> proc \<Rightarrow> ('e error + unit) \<times> proc" where
  "print x p =
     (case stdout_write (str x) p of
        (Inl e, p) \<Rightarrow> (Inl e, p)
      | (Inr _, p) \<Rightarrow> stdout_write [CHR 0x0A] p)"

subsection \<open>The program\<close>

text \<open>Lines 5 to 10: the four assignments (line 8 is a comment).\<close>

definition bootstrap :: "proc \<Rightarrow> proc" where
  "bootstrap p =
     (let p = setenv ''LANGFUSE_PUBLIC_KEY'' ''pk-lf..'' p;
          p = setenv ''LANGFUSE_SECRET_KEY'' ''sk-lf-..'' p;
          p = setenv ''LANGFUSE_BASE_URL'' ''http://localhost:3000'' p;
          p = setenv ''ANTHROPIC_API_KEY'' ''sk-..'' p
      in p)"

text \<open>\<open>def main()\<close>, lines 14 to 29. An exception ends it at the statement that raises.\<close>

definition main ::
  "(request \<Rightarrow> 'w \<Rightarrow> ('e + ('m, 'c, 'z) response_scheme) \<times> 'w) \<Rightarrow> proc \<Rightarrow> 'w \<Rightarrow>
     ('e error + unit) \<times> proc \<times> 'w" where
  "main ep p w =
     (case OpenAI (getenv ''ANTHROPIC_API_KEY'' p) ''https://api.anthropic.com/v1/'' p of
        (Inl e, p) \<Rightarrow> (Inl e, p, w)
      | (Inr client, p) \<Rightarrow>
          (let (res, p, w) =
             create ep client ''claude-opus-4-20250514''
               [[(''role'', ''system''), (''content'', ''You are a helpful assistant.'')],
                [(''role'', ''user''), (''content'', ''Who are you?'')]] p w
           in case res of
                Inl e \<Rightarrow> (Inl (Raised e), p, w)
              | Inr response \<Rightarrow>
                  (case choices response of
                     [] \<Rightarrow> (Inl IndexError, p, w)
                   | c # _ \<Rightarrow>
                       (let (res, p) = print (content (message c)) p in (res, p, w)))))"

text \<open>
  The whole module, run in a fresh process whose inherited environment is \<open>env\<close>, with
  \<open>__name__\<close> equal to \<open>name\<close>: the assignments, then \<open>main()\<close> under the guard of lines 32
  and 33. The interpreter has opened standard output before, with the encoding \<open>codec env\<close>
  that it takes from the inherited environment.
\<close>

definition script ::
  "string \<Rightarrow> (environ \<Rightarrow> string \<Rightarrow> string option) \<Rightarrow>
     (request \<Rightarrow> 'w \<Rightarrow> ('e + ('m, 'c, 'z) response_scheme) \<times> 'w) \<Rightarrow> environ \<Rightarrow> 'w \<Rightarrow>
     ('e error + unit) \<times> proc \<times> 'w" where
  "script name codec ep env w =
     (let p = bootstrap \<lparr>environ = env, trace = [], stdout_encode = codec env\<rparr>
      in if name = ''__main__'' then main ep p w else (Inr (), p, w))"

text \<open>
  The exit status of the interpreter: 0 when the module ends normally, 1 when an exception
  is not caught.
\<close>

fun exit_status :: "'e error + unit \<Rightarrow> nat" where
  "exit_status (Inl _) = 1"
| "exit_status (Inr _) = 0"

subsection \<open>Observations on a trace\<close>

text \<open>Everything written to standard output, the calls of \<open>create\<close> with their requests,
  the clients built, the assignments to the environment.\<close>

fun stdout :: "event list \<Rightarrow> string" where
  "stdout [] = []"
| "stdout (Write s # es) = s @ stdout es"
| "stdout (_ # es) = stdout es"

fun requests :: "event list \<Rightarrow> request list" where
  "requests [] = []"
| "requests (Create r # es) = r # requests es"
| "requests (_ # es) = requests es"

fun clients :: "event list \<Rightarrow> client list" where
  "clients [] = []"
| "clients (Init_client c # es) = c # clients es"
| "clients (_ # es) = clients es"

fun assignments :: "event list \<Rightarrow> (string \<times> string) list" where
  "assignments [] = []"
| "assignments (Setenv k v # es) = (k, v) # assignments es"
| "assignments (_ # es) = assignments es"

text \<open>
  The request of the scenario in the specification: the model identifier and the two
  messages, sent through a client for Anthropic's endpoint with the key of the script.
\<close>

definition scenario_request :: request where
  "scenario_request =
     \<lparr>via = \<lparr>api_key = Some ''sk-..'', base_url = ''https://api.anthropic.com/v1/''\<rparr>,
      model = ''claude-opus-4-20250514'',
      messages =
        [[(''role'', ''system''), (''content'', ''You are a helpful assistant.'')],
         [(''role'', ''user''), (''content'', ''Who are you?'')]]\<rparr>"



subsection \<open>Example interpreters and endpoints\<close>

text \<open>
  An interpreter whose standard output is ASCII when the inherited \<open>PYTHONIOENCODING\<close> is
  \<open>ascii\<close>, and UTF-8 otherwise. The ASCII encoder fails on a text with a byte that has
  the top bit set; the UTF-8 encoder writes the text as it is.
\<close>

definition ascii_encode :: "string \<Rightarrow> string option" where
  "ascii_encode s = (if list_ex digit7 s then None else Some s)"

definition python_codec :: "environ \<Rightarrow> string \<Rightarrow> string option" where
  "python_codec env =
     (if env ''PYTHONIOENCODING'' = Some ''ascii'' then ascii_encode else Some)"

text \<open>
  The failures of the client call that the specification lists: an authentication failure,
  an unreachable network, a response with a status outside 2xx, a malformed body.
\<close>

datatype client_failure =
  Authentication_failure | Network_unreachable | Api_status nat | Malformed_body

text \<open>An endpoint that answers every request with the response \<open>r\<close>.\<close>

definition answering :: "'r \<Rightarrow> request \<Rightarrow> unit \<Rightarrow> (client_failure + 'r) \<times> unit" where
  "answering r req w = (Inr r, w)"

text \<open>An endpoint where every call raises \<open>e\<close>.\<close>

definition failing ::
  "client_failure \<Rightarrow> request \<Rightarrow> unit \<Rightarrow> (client_failure + (unit, unit) response) \<times> unit" where
  "failing e req w = (Inl e, w)"

text \<open>
  An endpoint whose state is the number of requests it has served, and whose answer to the
  first request differs from its answer to the later ones.
\<close>

definition counting :: "request \<Rightarrow> nat \<Rightarrow> (client_failure + (unit, unit) response) \<times> nat" where
  "counting req n =
     (Inr \<lparr>choices = [\<lparr>message = \<lparr>content = Some (if n = 0 then ''first'' else ''again'')\<rparr>\<rparr>]\<rparr>,
      Suc n)"

text \<open>
  An endpoint as the client library behaves by default when the connection fails: the world
  is the list of the requests sent on the network; the call sends the request, sends it
  again twice (\<open>max_retries\<close>, which the script leaves at its default of 2), and raises.
\<close>

definition retrying ::
  "request \<Rightarrow> request list \<Rightarrow> (client_failure + (unit, unit) response) \<times> request list" where
  "retrying req wire = (Inl Network_unreachable, wire @ [req, req, req])"

text \<open>A response whose content is the letter e with an acute accent.\<close>

definition accented_response :: "(unit, unit) response" where
  "accented_response = \<lparr>choices = [\<lparr>message = \<lparr>content = Some [CHR 0xC3, CHR 0xA9]\<rparr>\<rparr>]\<rparr>"

text \<open>
  Two responses with the same content in the first choice: one has nothing else, the other
  has a second choice and further fields in the message, the choices and the response.
\<close>

definition short_response :: "(unit, unit) response" where
  "short_response = \<lparr>choices = [\<lparr>message = \<lparr>content = Some ''Hello''\<rparr>\<rparr>]\<rparr>"

definition long_response :: "(string, nat, string) response_scheme" where
  "long_response =
     \<lparr>choices =
        [\<lparr>message = \<lparr>content = Some ''Hello'', \<dots> = ''assistant''\<rparr>, \<dots> = 0\<rparr>,
         \<lparr>message = \<lparr>content = None, \<dots> = ''assistant''\<rparr>, \<dots> = 1\<rparr>],
      \<dots> = ''chatcmpl-1''\<rparr>"

section \<open>Properties\<close>

subsection \<open>The run, step by step\<close>

lemma environ_bootstrap:
  "environ (bootstrap p) =
     (environ p)(''LANGFUSE_PUBLIC_KEY'' \<mapsto> ''pk-lf..'', ''LANGFUSE_SECRET_KEY'' \<mapsto> ''sk-lf-..'',
        ''LANGFUSE_BASE_URL'' \<mapsto> ''http://localhost:3000'', ''ANTHROPIC_API_KEY'' \<mapsto> ''sk-..'')"
  by (simp add: bootstrap_def setenv_def)

lemma trace_bootstrap:
  "trace (bootstrap p) =
     trace p @
     [Setenv ''LANGFUSE_PUBLIC_KEY'' ''pk-lf..'', Setenv ''LANGFUSE_SECRET_KEY'' ''sk-lf-..'',
      Setenv ''LANGFUSE_BASE_URL'' ''http://localhost:3000'', Setenv ''ANTHROPIC_API_KEY'' ''sk-..'']"
  by (simp add: bootstrap_def setenv_def)

lemma stdout_encode_bootstrap: "stdout_encode (bootstrap p) = stdout_encode p"
  by (simp add: bootstrap_def setenv_def)

lemma getenv_bootstrap: "getenv ''ANTHROPIC_API_KEY'' (bootstrap p) = Some ''sk-..''"
  by (simp add: getenv_def environ_bootstrap)

lemma OpenAI_key:
  "k \<noteq> [] \<Longrightarrow>
   OpenAI (Some k) u p =
     (Inr \<lparr>api_key = Some k, base_url = u\<rparr>,
      p\<lparr>trace := trace p @ [Init_client \<lparr>api_key = Some k, base_url = u\<rparr>]\<rparr>)"
  by (simp add: OpenAI_def Let_def)


text \<open>What \<open>print\<close> leaves behind, by the two writes.\<close>

lemma print_run:
  "print x p =
     (case stdout_encode p (str x) of
        None \<Rightarrow> (Inl UnicodeEncodeError, p)
      | Some b \<Rightarrow>
          (case stdout_encode p [CHR 0x0A] of
             None \<Rightarrow> (Inl UnicodeEncodeError, p\<lparr>trace := trace p @ [Write b]\<rparr>)
           | Some nl \<Rightarrow> (Inr (), p\<lparr>trace := trace p @ [Write b, Write nl]\<rparr>)))"
  by (simp add: print_def stdout_write_def split: option.splits)

lemma main_run:
  "k \<noteq> [] \<Longrightarrow> getenv ''ANTHROPIC_API_KEY'' p = Some k \<Longrightarrow>
   main ep p w =
     (let c = \<lparr>api_key = Some k, base_url = ''https://api.anthropic.com/v1/''\<rparr>;
          req = \<lparr>via = c, model = ''claude-opus-4-20250514'',
                 messages =
                   [[(''role'', ''system''), (''content'', ''You are a helpful assistant.'')],
                    [(''role'', ''user''), (''content'', ''Who are you?'')]]\<rparr>;
          p' = p\<lparr>trace := trace p @ [Init_client c, Create req]\<rparr>
      in case ep req w of
           (Inl e, w') \<Rightarrow> (Inl (Raised e), p', w')
         | (Inr r, w') \<Rightarrow>
             (case choices r of
                [] \<Rightarrow> (Inl IndexError, p', w')
              | c # _ \<Rightarrow> (let (res, p'') = print (content (message c)) p' in (res, p'', w'))))"
  by (simp add: main_def OpenAI_key create_def Let_def split: prod.splits sum.splits list.splits)

lemma script_run:
  "script ''__main__'' codec ep env w =
     (let b = bootstrap \<lparr>environ = env, trace = [], stdout_encode = codec env\<rparr>;
          p = b\<lparr>trace := trace b @ [Init_client (via scenario_request), Create scenario_request]\<rparr>
      in case ep scenario_request w of
           (Inl e, w') \<Rightarrow> (Inl (Raised e), p, w')
         | (Inr r, w') \<Rightarrow>
             (case choices r of
                [] \<Rightarrow> (Inl IndexError, p, w')
              | c # _ \<Rightarrow> (let (res, p') = print (content (message c)) p in (res, p', w'))))"
proof -
  let ?b = "bootstrap \<lparr>environ = env, trace = [], stdout_encode = codec env\<rparr>"
  have "script ''__main__'' codec ep env w = main ep ?b w"
    by (simp add: script_def)
  moreover have "getenv ''ANTHROPIC_API_KEY'' ?b = Some ''sk-..''"
    by (rule getenv_bootstrap)
  ultimately show ?thesis
    using main_run [of "''sk-..''" ?b ep w] by (simp add: scenario_request_def Let_def)
qed


text \<open>The four components of a run: how it ends, what it did, its environment, the world.\<close>

lemma script_result:
  "fst (script ''__main__'' codec ep env w) =
     (case fst (ep scenario_request w) of
        Inl e \<Rightarrow> Inl (Raised e)
      | Inr r \<Rightarrow>
          (case choices r of
             [] \<Rightarrow> Inl IndexError
           | c # _ \<Rightarrow>
               (case codec env (str (content (message c))) of
                  None \<Rightarrow> Inl UnicodeEncodeError
                | Some b \<Rightarrow>
                    (case codec env [CHR 0x0A] of
                       None \<Rightarrow> Inl UnicodeEncodeError
                     | Some nl \<Rightarrow> Inr ()))))"
  by (cases "ep scenario_request w")
    (auto simp add: script_run Let_def print_run stdout_encode_bootstrap
       split: sum.splits list.splits option.splits)

lemma script_trace:
  "trace (fst (snd (script ''__main__'' codec ep env w))) =
     [Setenv ''LANGFUSE_PUBLIC_KEY'' ''pk-lf..'', Setenv ''LANGFUSE_SECRET_KEY'' ''sk-lf-..'',
      Setenv ''LANGFUSE_BASE_URL'' ''http://localhost:3000'', Setenv ''ANTHROPIC_API_KEY'' ''sk-..'',
      Init_client (via scenario_request), Create scenario_request] @
     (case fst (ep scenario_request w) of
        Inl e \<Rightarrow> []
      | Inr r \<Rightarrow>
          (case choices r of
             [] \<Rightarrow> []
           | c # _ \<Rightarrow>
               (case codec env (str (content (message c))) of
                  None \<Rightarrow> []
                | Some b \<Rightarrow>
                    (case codec env [CHR 0x0A] of
                       None \<Rightarrow> [Write b]
                     | Some nl \<Rightarrow> [Write b, Write nl]))))"
  by (cases "ep scenario_request w")
    (simp add: script_run Let_def print_run stdout_encode_bootstrap trace_bootstrap
       split: sum.splits list.splits option.splits)

lemma script_world:
  "snd (snd (script ''__main__'' codec ep env w)) = snd (ep scenario_request w)"
  by (cases "ep scenario_request w")
    (simp add: script_run Let_def print_run split: sum.splits list.splits option.splits)

lemma script_environ:
  "environ (fst (snd (script name codec ep env w))) =
     env(''LANGFUSE_PUBLIC_KEY'' \<mapsto> ''pk-lf..'', ''LANGFUSE_SECRET_KEY'' \<mapsto> ''sk-lf-..'',
         ''LANGFUSE_BASE_URL'' \<mapsto> ''http://localhost:3000'', ''ANTHROPIC_API_KEY'' \<mapsto> ''sk-..'')"
proof (cases "name = ''__main__''")
  case True
  then show ?thesis
    by (cases "ep scenario_request w")
      (simp add: script_run Let_def print_run environ_bootstrap
         split: sum.splits list.splits option.splits)
next
  case False
  then show ?thesis
    by (simp add: script_def Let_def environ_bootstrap)
qed

lemma script_imported:
  "name \<noteq> ''__main__'' \<Longrightarrow>
   trace (fst (snd (script name codec ep env w))) =
     [Setenv ''LANGFUSE_PUBLIC_KEY'' ''pk-lf..'', Setenv ''LANGFUSE_SECRET_KEY'' ''sk-lf-..'',
      Setenv ''LANGFUSE_BASE_URL'' ''http://localhost:3000'', Setenv ''ANTHROPIC_API_KEY'' ''sk-..'']"
  by (simp add: script_def Let_def trace_bootstrap)


lemma script_stdout:
  "stdout (trace (fst (snd (script ''__main__'' codec ep env w)))) =
     (case fst (ep scenario_request w) of
        Inl e \<Rightarrow> []
      | Inr r \<Rightarrow>
          (case choices r of
             [] \<Rightarrow> []
           | c # _ \<Rightarrow>
               (case codec env (str (content (message c))) of
                  None \<Rightarrow> []
                | Some b \<Rightarrow> (case codec env [CHR 0x0A] of None \<Rightarrow> b | Some nl \<Rightarrow> b @ nl))))"
  by (simp add: script_trace split: sum.splits list.splits option.splits)

lemma script_requests:
  "requests (trace (fst (snd (script ''__main__'' codec ep env w)))) = [scenario_request]"
  by (simp add: script_trace split: sum.splits list.splits option.splits)

lemma script_clients:
  "clients (trace (fst (snd (script ''__main__'' codec ep env w)))) = [via scenario_request]"
  by (simp add: script_trace split: sum.splits list.splits option.splits)





subsection \<open>The claims of the specification\<close>

text \<open>
  Claim C1, as amended. When the endpoint answers the request of the script with a response
  whose list of choices is not empty and whose first choice has a string as message content,
  and the encoding of standard output has that string (and the line terminator), the run
  writes the string, encoded, then the terminator of \<open>print\<close>, and nothing else; it ends
  normally, with exit status 0.
\<close>

theorem first_choice_printed:
  assumes "fst (ep scenario_request w) = Inr r" and "choices r = c # cs"
    and "content (message c) = Some s"
    and "codec env s = Some b" and "codec env [CHR 0x0A] = Some nl"
  shows "case script ''__main__'' codec ep env w of
           (res, p, w') \<Rightarrow> stdout (trace p) = b @ nl \<and> res = Inr () \<and> exit_status res = 0"
  using assms by (simp add: case_prod_beta script_stdout script_result)

text \<open>An endpoint that answers with the content \<open>Hello\<close>, on a UTF-8 output.\<close>

theorem first_choice_printed_witness:
  "fst (answering short_response scenario_request ()) = Inr short_response \<and>
   choices short_response = [\<lparr>message = \<lparr>content = Some ''Hello''\<rparr>\<rparr>] \<and>
   python_codec Map.empty ''Hello'' = Some ''Hello'' \<and>
   python_codec Map.empty [CHR 0x0A] = Some [CHR 0x0A] \<and>
   (case script ''__main__'' python_codec (answering short_response) Map.empty () of
      (res, p, w') \<Rightarrow>
        stdout (trace p) = ''Hello'' @ [CHR 0x0A] \<and> res = Inr () \<and> exit_status res = 0)"
  using first_choice_printed
    [where ep = "answering short_response" and w = "()" and r = short_response
       and c = "\<lparr>message = \<lparr>content = Some ''Hello''\<rparr>\<rparr>" and cs = "[]" and s = "''Hello''"
       and codec = python_codec and env = Map.empty and b = "''Hello''" and nl = "[CHR 0x0A]"]
  by (simp add: answering_def short_response_def python_codec_def)

text \<open>
  Claim C1 as it is stated fails where the content cannot be encoded: with
  \<open>PYTHONIOENCODING=ascii\<close> inherited and an accented letter as content, the response is
  well-formed and has one choice, but \<open>print\<close> raises \<open>UnicodeEncodeError\<close>; nothing is
  written and the exit status is 1.
\<close>

theorem first_choice_printed_counterexample:
  "fst (answering accented_response scenario_request ()) = Inr accented_response \<and>
   choices accented_response = [\<lparr>message = \<lparr>content = Some [CHR 0xC3, CHR 0xA9]\<rparr>\<rparr>] \<and>
   fst (script ''__main__'' python_codec (answering accented_response)
          [''PYTHONIOENCODING'' \<mapsto> ''ascii''] ()) = Inl UnicodeEncodeError \<and>
   exit_status (fst (script ''__main__'' python_codec (answering accented_response)
          [''PYTHONIOENCODING'' \<mapsto> ''ascii''] ())) = 1 \<and>
   stdout (trace (fst (snd (script ''__main__'' python_codec (answering accented_response)
          [''PYTHONIOENCODING'' \<mapsto> ''ascii''] ())))) = []"
  by (simp add: script_result script_stdout answering_def accented_response_def
        python_codec_def ascii_encode_def)

text \<open>
  Claim C2, as amended. Every run of the script as the main program calls
  \<open>client.chat.completions.create\<close> exactly once, the outside world changes by that one
  call only, the request carries the model identifier \<open>claude-opus-4-20250514\<close> and the two
  messages (system, then user) in that order, and a run that ends normally has written the
  content of the first choice, encoded but otherwise unchanged, and the line terminator of
  \<open>print\<close>. How many times the library sends the request during the call is not the
  script's to say.
\<close>

theorem one_call_fixed_payload:
  "case script ''__main__'' codec ep env w of
     (res, p, w') \<Rightarrow>
       requests (trace p) = [scenario_request] \<and>
       w' = snd (ep scenario_request w) \<and>
       model scenario_request = ''claude-opus-4-20250514'' \<and>
       messages scenario_request =
         [[(''role'', ''system''), (''content'', ''You are a helpful assistant.'')],
          [(''role'', ''user''), (''content'', ''Who are you?'')]] \<and>
       (res = Inr () \<longrightarrow>
          (\<exists>r c cs b nl. fst (ep scenario_request w) = Inr r \<and> choices r = c # cs \<and>
             codec env (str (content (message c))) = Some b \<and>
             codec env [CHR 0x0A] = Some nl \<and> stdout (trace p) = b @ nl))"
  by (auto simp add: case_prod_beta script_requests script_world script_stdout script_result
        scenario_request_def split: sum.splits list.splits option.splits)

text \<open>A run against the counting endpoint ends normally, after one call and one line.\<close>

theorem one_call_fixed_payload_witness:
  "case script ''__main__'' python_codec counting Map.empty 0 of
     (res, p, w') \<Rightarrow>
       res = Inr () \<and> requests (trace p) = [scenario_request] \<and> w' = 1 \<and>
       stdout (trace p) = ''first'' @ [CHR 0x0A]"
  using one_call_fixed_payload [where codec = python_codec and ep = counting and env = Map.empty and w = 0]
  by (simp add: case_prod_beta script_result script_stdout script_world counting_def
        python_codec_def)

text \<open>
  Claim C2 as it is stated, with exactly one outbound request in every run, fails against an
  endpoint that retries as the library does by default: the one call of a run puts three
  requests on the network.
\<close>

theorem one_request_counterexample:
  "snd (snd (script ''__main__'' python_codec retrying Map.empty [])) =
     [scenario_request, scenario_request, scenario_request] \<and>
   length (snd (snd (script ''__main__'' python_codec retrying Map.empty []))) \<noteq> 1"
  by (simp add: script_world retrying_def)

text \<open>
  Claim C3. Whatever exception the client call raises, the run ends with that exception
  uncaught: the exit status is not 0 and standard output is empty. The one call had been
  made, and the script does not repeat it.
\<close>

theorem client_failure_propagates:
  assumes "fst (ep scenario_request w) = Inl e"
  shows "case script ''__main__'' codec ep env w of
           (res, p, w') \<Rightarrow>
             res = Inl (Raised e) \<and> 0 < exit_status res \<and> stdout (trace p) = [] \<and>
             requests (trace p) = [scenario_request]"
  using assms by (simp add: case_prod_beta script_stdout script_result script_requests)

text \<open>An endpoint that refuses the key: the run fails with nothing printed.\<close>

theorem client_failure_propagates_witness:
  "fst (failing Authentication_failure scenario_request ()) = Inl Authentication_failure \<and>
   (case script ''__main__'' python_codec (failing Authentication_failure) Map.empty () of
      (res, p, w') \<Rightarrow>
        res = Inl (Raised Authentication_failure) \<and> 0 < exit_status res \<and>
        stdout (trace p) = [] \<and> requests (trace p) = [scenario_request])"
  using client_failure_propagates
    [where codec = python_codec and ep = "failing Authentication_failure" and w = "()" and e = Authentication_failure
       and env = Map.empty]
  by (simp add: failing_def)

text \<open>
  Claim C4. When the response has an empty list of choices, \<open>response.choices[0]\<close> raises
  \<open>IndexError\<close>, which nothing catches or prevents: the request has been made, the run ends
  with a non-zero exit status and standard output is empty.
\<close>

theorem empty_choices_index_error:
  assumes "fst (ep scenario_request w) = Inr r" and "choices r = []"
  shows "case script ''__main__'' codec ep env w of
           (res, p, w') \<Rightarrow>
             res = Inl IndexError \<and> 0 < exit_status res \<and> stdout (trace p) = [] \<and>
             requests (trace p) = [scenario_request]"
  using assms by (simp add: case_prod_beta script_stdout script_result script_requests)

text \<open>An endpoint that answers with no choices.\<close>

theorem empty_choices_index_error_witness:
  "fst (answering \<lparr>choices = []\<rparr> scenario_request ()) =
     Inr (\<lparr>choices = []\<rparr> :: (unit, unit) response) \<and>
   (case script ''__main__'' python_codec
           (answering (\<lparr>choices = []\<rparr> :: (unit, unit) response)) Map.empty () of
      (res, p, w') \<Rightarrow>
        res = Inl IndexError \<and> 0 < exit_status res \<and> stdout (trace p) = [] \<and>
        requests (trace p) = [scenario_request])"
  using empty_choices_index_error
    [where codec = python_codec and ep = "answering (\<lparr>choices = []\<rparr> :: (unit, unit) response)" and w = "()"
       and r = "\<lparr>choices = []\<rparr>" and env = Map.empty]
  by (simp add: answering_def)


text \<open>
  Claim C6. In every run (as the main program or as an imported module) the first four
  effects are the assignments to \<open>LANGFUSE_PUBLIC_KEY\<close>, \<open>LANGFUSE_SECRET_KEY\<close>,
  \<open>LANGFUSE_BASE_URL\<close> and \<open>ANTHROPIC_API_KEY\<close>, each to a string; no client exists yet at
  that point; nothing afterwards assigns to the environment, so each of the four is written
  once; and the final environment is the inherited one, changed at those four names only.
\<close>

theorem bootstrap_four_variables_once:
  "case script name codec ep env w of
     (res, p, w') \<Rightarrow>
       take 4 (trace p) =
         [Setenv ''LANGFUSE_PUBLIC_KEY'' ''pk-lf..'', Setenv ''LANGFUSE_SECRET_KEY'' ''sk-lf-..'',
          Setenv ''LANGFUSE_BASE_URL'' ''http://localhost:3000'', Setenv ''ANTHROPIC_API_KEY'' ''sk-..''] \<and>
       clients (take 4 (trace p)) = [] \<and>
       assignments (drop 4 (trace p)) = [] \<and>
       assignments (trace p) =
         [(''LANGFUSE_PUBLIC_KEY'', ''pk-lf..''), (''LANGFUSE_SECRET_KEY'', ''sk-lf-..''),
          (''LANGFUSE_BASE_URL'', ''http://localhost:3000''), (''ANTHROPIC_API_KEY'', ''sk-..'')] \<and>
       environ p =
         env(''LANGFUSE_PUBLIC_KEY'' \<mapsto> ''pk-lf..'', ''LANGFUSE_SECRET_KEY'' \<mapsto> ''sk-lf-..'',
             ''LANGFUSE_BASE_URL'' \<mapsto> ''http://localhost:3000'', ''ANTHROPIC_API_KEY'' \<mapsto> ''sk-..'')"
  by (cases "name = ''__main__''")
    (simp_all add: case_prod_beta script_trace script_imported script_environ
       split: sum.splits list.splits option.splits)

text \<open>
  Claim C7, as amended. Two runs, one after the other, with the same inherited environment:
  each calls \<open>create\<close> exactly once (also when the answer is an exception: the script does
  not call again), the world has served two calls at the end, and how the second run ends and
  what it prints are computed from the answer to its own call. Nothing of the first run is
  kept for the second. Whether the library sends a request more than once within a call is
  not excluded.
\<close>

theorem runs_are_independent:
  "case script ''__main__'' codec ep env w of
     (res1, p1, w1) \<Rightarrow>
       (case script ''__main__'' codec ep env w1 of
          (res2, p2, w2) \<Rightarrow>
            requests (trace p1) = [scenario_request] \<and>
            requests (trace p2) = [scenario_request] \<and>
            w1 = snd (ep scenario_request w) \<and>
            w2 = snd (ep scenario_request (snd (ep scenario_request w))) \<and>
            res2 =
              (case fst (ep scenario_request w1) of
                 Inl e \<Rightarrow> Inl (Raised e)
               | Inr r \<Rightarrow>
                   (case choices r of
                      [] \<Rightarrow> Inl IndexError
                    | c # _ \<Rightarrow>
                        (case codec env (str (content (message c))) of
                           None \<Rightarrow> Inl UnicodeEncodeError
                         | Some b \<Rightarrow>
                             (case codec env [CHR 0x0A] of
                                None \<Rightarrow> Inl UnicodeEncodeError
                              | Some nl \<Rightarrow> Inr ())))) \<and>
            stdout (trace p2) =
              (case fst (ep scenario_request w1) of
                 Inl e \<Rightarrow> []
               | Inr r \<Rightarrow>
                   (case choices r of
                      [] \<Rightarrow> []
                    | c # _ \<Rightarrow>
                        (case codec env (str (content (message c))) of
                           None \<Rightarrow> []
                         | Some b \<Rightarrow>
                             (case codec env [CHR 0x0A] of None \<Rightarrow> b | Some nl \<Rightarrow> b @ nl)))))"
  by (simp add: case_prod_beta script_requests script_world script_stdout script_result)

text \<open>
  Two runs against the counting endpoint: the second prints the second answer, not the first.
\<close>

theorem runs_are_independent_witness:
  "case script ''__main__'' python_codec counting Map.empty 0 of
     (res1, p1, w1) \<Rightarrow>
       (case script ''__main__'' python_codec counting Map.empty w1 of
          (res2, p2, w2) \<Rightarrow>
            requests (trace p1) = [scenario_request] \<and>
            requests (trace p2) = [scenario_request] \<and>
            w1 = 1 \<and> w2 = 2 \<and> res2 = Inr () \<and>
            stdout (trace p1) = ''first'' @ [CHR 0x0A] \<and>
            stdout (trace p2) = ''again'' @ [CHR 0x0A])"
  using runs_are_independent [where codec = python_codec and ep = counting and env = Map.empty and w = 0]
  by (simp add: case_prod_beta script_world script_requests script_stdout script_result
        counting_def python_codec_def)

text \<open>
  Claim C7 as it is stated, with one request per run and no retries, fails against the
  retrying endpoint: each run puts three requests on the network, two runs six.
\<close>

theorem two_runs_counterexample:
  "length (snd (snd (script ''__main__'' python_codec retrying Map.empty []))) = 3 \<and>
   length (snd (snd (script ''__main__'' python_codec retrying Map.empty
      (snd (snd (script ''__main__'' python_codec retrying Map.empty [])))))) = 6"
  by (simp add: script_world retrying_def)

text \<open>
  Claim C8. Every run builds exactly one client, with the base URL
  \<open>https://api.anthropic.com/v1/\<close>, and its one request is made through that client.
\<close>

theorem client_targets_anthropic:
  "case script ''__main__'' codec ep env w of
     (res, p, w') \<Rightarrow>
       clients (trace p) =
         [\<lparr>api_key = Some ''sk-..'', base_url = ''https://api.anthropic.com/v1/''\<rparr>] \<and>
       map via (requests (trace p)) = clients (trace p) \<and>
       map (base_url \<circ> via) (requests (trace p)) = [''https://api.anthropic.com/v1/'']"
  by (simp add: case_prod_beta script_requests script_clients scenario_request_def)

text \<open>
  Claim C9. Two runs in the same inherited environment whose responses have the same content
  in the message of the first choice write the same text to standard output, whatever the
  other fields of the responses, the further choices and the worlds are.
\<close>

theorem stdout_depends_on_first_content:
  assumes "fst (ep1 scenario_request w1) = Inr r1" and "fst (ep2 scenario_request w2) = Inr r2"
    and "choices r1 = c1 # cs1" and "choices r2 = c2 # cs2"
    and "content (message c1) = content (message c2)"
  shows "stdout (trace (fst (snd (script ''__main__'' codec ep1 env w1)))) =
         stdout (trace (fst (snd (script ''__main__'' codec ep2 env w2))))"
  using assms by (simp add: script_stdout)

text \<open>
  The long and the short response differ in everything but the first content; both runs
  have an ASCII output.
\<close>

theorem stdout_depends_on_first_content_witness:
  "fst (answering long_response scenario_request ()) = Inr long_response \<and>
   fst (answering short_response scenario_request ()) = Inr short_response \<and>
   length (choices long_response) = 2 \<and> length (choices short_response) = 1 \<and>
   content (message (hd (choices long_response))) =
     content (message (hd (choices short_response))) \<and>
   stdout (trace (fst (snd (script ''__main__'' python_codec (answering long_response)
      [''PYTHONIOENCODING'' \<mapsto> ''ascii''] ())))) =
   stdout (trace (fst (snd (script ''__main__'' python_codec (answering short_response)
      [''PYTHONIOENCODING'' \<mapsto> ''ascii''] ())))) \<and>
   stdout (trace (fst (snd (script ''__main__'' python_codec (answering short_response)
      [''PYTHONIOENCODING'' \<mapsto> ''ascii''] ())))) = ''Hello'' @ [CHR 0x0A]"
  using stdout_depends_on_first_content
    [where ?ep1.0 = "answering long_response" and ?w1.0 = "()" and ?r1.0 = long_response
       and ?ep2.0 = "answering short_response" and ?w2.0 = "()" and ?r2.0 = short_response
       and ?c1.0 = "\<lparr>message = \<lparr>content = Some ''Hello'', \<dots> = ''assistant''\<rparr>, \<dots> = (0::nat)\<rparr>"
       and ?cs1.0 = "[\<lparr>message = \<lparr>content = None, \<dots> = ''assistant''\<rparr>, \<dots> = (1::nat)\<rparr>]"
       and ?c2.0 = "\<lparr>message = \<lparr>content = Some ''Hello''\<rparr>\<rparr>" and ?cs2.0 = "[]"
       and codec = python_codec and env = "[''PYTHONIOENCODING'' \<mapsto> ''ascii'']"]
  by (simp add: answering_def long_response_def short_response_def script_stdout
        python_codec_def ascii_encode_def)

text \<open>
  Claim C10. After the four assignments, and at the end of every run, \<open>LANGFUSE_BASE_URL\<close>
  is \<open>http://localhost:3000\<close>: a local address (the comment on that line of the source
  speaks of the EU region).
\<close>

theorem langfuse_base_url_is_local:
  "environ (bootstrap p) ''LANGFUSE_BASE_URL'' = Some ''http://localhost:3000'' \<and>
   (case script name codec ep env w of
      (res, p', w') \<Rightarrow> environ p' ''LANGFUSE_BASE_URL'' = Some ''http://localhost:3000'')"
  by (simp add: case_prod_beta script_environ environ_bootstrap)

end
